theory Spec2Isabelle
  imports Main
begin

section \<open>Python values, dictionaries and errors\<close>

text \<open>
  The values that travel through \<^verbatim>\<open>approute/__init__.py\<close>: JSON-like Python
  values. A dictionary is an association list in insertion order; a lookup takes the
  first binding of a key, and the dictionaries the module builds have distinct keys.
\<close>

datatype pyval =
    PNone
  | PBool bool
  | PInt int
  | PStr string
  | PList "pyval list"
  | PDict "(string \<times> pyval) list"

type_synonym dict = "(string \<times> pyval) list"

text \<open>\<^verbatim>\<open>key in d\<close> and \<^verbatim>\<open>d.get(key, default)\<close>.\<close>

definition dict_contains :: "string \<Rightarrow> dict \<Rightarrow> bool" where
  "dict_contains k d = (case map_of d k of None \<Rightarrow> False | Some v \<Rightarrow> True)"

definition dict_get :: "dict \<Rightarrow> string \<Rightarrow> pyval \<Rightarrow> pyval" where
  "dict_get d k dflt = (case map_of d k of None \<Rightarrow> dflt | Some v \<Rightarrow> v)"

text \<open>
  The exceptions that can leave the module: \<^verbatim>\<open>NotImplementedError\<close> is raised by
  the default \<^verbatim>\<open>handle_post\<close>; \<^verbatim>\<open>AttributeError\<close> is what Python raises when an
  attribute that no class defines is read; \<open>BadRequest\<close> is the host's client error
  for a body it cannot parse; \<open>HandlerError\<close> stands for whatever an overriding
  method raises.
\<close>

datatype error =
    NotImplementedError
  | AttributeError string
  | BadRequest
  | HandlerError string

section \<open>The request and the session\<close>

text \<open>
  The attributes of \<^verbatim>\<open>flask.request\<close> the module reads. \<open>accept_mimetypes\<close> is
  the parsed \<^verbatim>\<open>Accept\<close> header: media ranges with their quality in thousandths
  (from 0 to 1000), in the order of the header. \<open>json\<close> is the result of evaluating
  \<^verbatim>\<open>request.json\<close>, which the host fails with a client error on a malformed
  body. \<open>form\<close> is \<^verbatim>\<open>request.form\<close>.
\<close>

record request =
  is_json :: bool
  accept_mimetypes :: "(string \<times> int) list"
  json :: "error + pyval"
  form :: dict

text \<open>
  The session holds the flashed messages, as \<open>(category, message)\<close> pairs in the
  order they were flashed.
\<close>

record session =
  flashes :: "(string \<times> string) list"

text \<open>
  Modelled from the spec: the host's flash store (\<^verbatim>\<open>flask.flash\<close>) is not part of
  the repository; section 6 gives it as \<^verbatim>\<open>enqueue(channel, message, category)\<close>,
  appending to a session-scoped queue.
\<close>

definition flash :: "string \<Rightarrow> string \<Rightarrow> session \<Rightarrow> session" where
  "flash message category st = st\<lparr>flashes := flashes st @ [(category, message)]\<rparr>"

section \<open>Content negotiation\<close>

definition MIMETYPES :: "string list" where
  "MIMETYPES = [''application/json'', ''text/html'']"

text \<open>
  Modelled from the spec: the host's \<^verbatim>\<open>accept_mimetypes.best_match\<close> is not part
  of the repository; section 4.1 gives it as standard HTTP content-type negotiation,
  aware of wildcards and quality values. The definitions up to \<open>best_match\<close> follow
  the host's algorithm. Media types are compared without regard to letter case:
  \<open>lower\<close> is \<^verbatim>\<open>str.lower\<close> on the letters A to Z, the only ones that can
  make a header item equal to a part of an offered type.
\<close>

definition lower_char :: "char \<Rightarrow> char" where
  "lower_char c =
     (case map_of (zip ''ABCDEFGHIJKLMNOPQRSTUVWXYZ'' ''abcdefghijklmnopqrstuvwxyz'') c of
        None \<Rightarrow> c
      | Some l \<Rightarrow> l)"

definition lower :: "string \<Rightarrow> string" where
  "lower s = map lower_char s"

text \<open>
  Modelled from the spec: a media type is cut into its type, its subtype and its
  parameters at every slash and at every semicolon together with the white space around
  the semicolon (the host's pattern \<^verbatim>\<open>/|(?:\s*;\s*)\<close>). \<open>is_space\<close> is the
  white space of an 8-bit header text. \<open>mime_split_from\<close> carries a flag that is
  true right after a semicolon, while the white space that follows it is dropped.
\<close>

definition is_space :: "char \<Rightarrow> bool" where
  "is_space c =
     (c \<in> set [CHR '' '', CHR 0x09, CHR 0x0A, CHR 0x0B, CHR 0x0C, CHR 0x0D,
                CHR 0x1C, CHR 0x1D, CHR 0x1E, CHR 0x1F, CHR 0x85, CHR 0xA0])"

definition semicolon_ahead :: "string \<Rightarrow> bool" where
  "semicolon_ahead cs =
     (case dropWhile is_space cs of [] \<Rightarrow> False | c # rest \<Rightarrow> c = CHR '';'')"

fun mime_split_from :: "bool \<Rightarrow> string \<Rightarrow> string list" where
  "mime_split_from skip [] = [[]]"
| "mime_split_from skip (c # cs) =
     (if c = CHR ''/'' then [] # mime_split_from False cs
      else if c = CHR '';'' then [] # mime_split_from True cs
      else if is_space c \<and> (skip \<or> semicolon_ahead cs) then mime_split_from skip cs
      else (case mime_split_from False cs of
              [] \<Rightarrow> [[c]]
            | w # ws \<Rightarrow> (c # w) # ws))"

definition mime_split :: "string \<Rightarrow> string list" where
  "mime_split s = mime_split_from False s"

definition normalize_mime :: "string \<Rightarrow> string list" where
  "normalize_mime s = mime_split (lower s)"

text \<open>
  Modelled from the spec: the specificity of a media range is the tuple that has 1 for
  each part that is not a wildcard and 0 for each wildcard; tuples are compared as
  Python compares them, position by position, a proper prefix being the smaller.
\<close>

definition specificity :: "string \<Rightarrow> int list" where
  "specificity v = map (\<lambda>x. if x \<noteq> ''*'' then 1 else 0) (mime_split v)"

fun tuple_less :: "int list \<Rightarrow> int list \<Rightarrow> bool" where
  "tuple_less [] [] = False"
| "tuple_less [] (y # ys) = True"
| "tuple_less (x # xs) [] = False"
| "tuple_less (x # xs) (y # ys) = (if x = y then tuple_less xs ys else x < y)"

text \<open>
  Modelled from the spec: whether a range of the client covers a type the server
  offers. A client item without slash, or with a wildcard type and a fixed subtype,
  covers nothing; otherwise the full wildcard covers everything, a subtype wildcard
  covers its type, and two fixed types must agree in type, subtype and parameters
  (\<open>same_items\<close>: the two parameter lists are equal once sorted). The host raises
  \<^verbatim>\<open>ValueError\<close> for an offered type that has no slash or a wildcard type with a
  fixed subtype; both entries of \<open>MIMETYPES\<close> are well formed, and the model answers
  \<open>False\<close> there.
\<close>

fun same_items :: "string list \<Rightarrow> string list \<Rightarrow> bool" where
  "same_items [] ys = (ys = [])"
| "same_items (x # xs) ys = (x \<in> set ys \<and> same_items xs (remove1 x ys))"

definition value_matches :: "string \<Rightarrow> string \<Rightarrow> bool" where
  "value_matches val item =
     (if CHR ''/'' \<notin> set item then False
      else if CHR ''/'' \<notin> set val then False
      else (case normalize_mime val of
              value_type # value_subtype # value_params \<Rightarrow>
                (if value_type = ''*'' \<and> value_subtype \<noteq> ''*'' then False
                 else (case normalize_mime item of
                         item_type # item_subtype # item_params \<Rightarrow>
                           (if item_type = ''*'' \<and> item_subtype \<noteq> ''*'' then False
                            else ((item_type = ''*'' \<and> item_subtype = ''*'')
                                  \<or> (value_type = ''*'' \<and> value_subtype = ''*''))
                               \<or> (item_type = value_type
                                   \<and> (item_subtype = ''*'' \<or> value_subtype = ''*''
                                       \<or> (item_subtype = value_subtype
                                           \<and> same_items item_params value_params))))
                       | _ \<Rightarrow> False))
            | _ \<Rightarrow> False))"

text \<open>
  Modelled from the spec: the host keeps the items of the header sorted by specificity
  and then quality, highest first, items of equal key in the order of the header
  (a stable sort). \<open>insert_sorted\<close> puts an item after the items of strictly
  greater key, and \<open>accept_sorted\<close> inserts the items from the last to the first.
\<close>

definition sort_key_less :: "string \<times> int \<Rightarrow> string \<times> int \<Rightarrow> bool" where
  "sort_key_less x y =
     (tuple_less (specificity (fst x)) (specificity (fst y))
      \<or> (specificity (fst x) = specificity (fst y) \<and> snd x < snd y))"

fun insert_sorted :: "string \<times> int \<Rightarrow> (string \<times> int) list \<Rightarrow> (string \<times> int) list" where
  "insert_sorted x [] = [x]"
| "insert_sorted x (y # ys) =
     (if sort_key_less x y then y # insert_sorted x ys else x # y # ys)"

definition accept_sorted :: "(string \<times> int) list \<Rightarrow> (string \<times> int) list" where
  "accept_sorted vs = foldr insert_sorted vs []"

text \<open>
  Modelled from the spec: \<open>best_single_match\<close> is the first item of the sorted
  header that covers an offered type. \<open>best_match\<close> walks the offered types in
  order; a type whose item has quality 0 is refused; a type replaces the result so far
  when its quality is strictly better, or equal with a strictly more specific item. The
  result is \<open>None\<close> when no offered type is accepted.
\<close>

fun best_single_match :: "string \<Rightarrow> (string \<times> int) list \<Rightarrow> (string \<times> int) option" where
  "best_single_match m [] = None"
| "best_single_match m ((client_item, quality) # rest) =
     (if value_matches m client_item then Some (client_item, quality)
      else best_single_match m rest)"

fun best_match_loop ::
  "(string \<times> int) list \<Rightarrow> string list \<Rightarrow> string option \<times> int \<times> int list \<Rightarrow> string option" where
  "best_match_loop self [] (result, best_quality, best_specificity) = result"
| "best_match_loop self (server_item # rest) (result, best_quality, best_specificity) =
     (case best_single_match server_item self of
        None \<Rightarrow> best_match_loop self rest (result, best_quality, best_specificity)
      | Some (client_item, quality) \<Rightarrow>
          (if quality \<le> 0 \<or> quality < best_quality
           then best_match_loop self rest (result, best_quality, best_specificity)
           else if quality > best_quality
                   \<or> tuple_less best_specificity (specificity client_item)
           then best_match_loop self rest (Some server_item, quality, specificity client_item)
           else best_match_loop self rest (result, best_quality, best_specificity)))"

definition best_match :: "(string \<times> int) list \<Rightarrow> string list \<Rightarrow> string option" where
  "best_match accept matches = best_match_loop (accept_sorted accept) matches (None, - 1, [- 1])"

text \<open>
  \<^verbatim>\<open>_is_json()\<close>, with the ambient request as a parameter. The comparison
  \<^verbatim>\<open>best == "application/json"\<close> is false for \<^verbatim>\<open>None\<close>.
\<close>

definition private_is_json :: "request \<Rightarrow> bool" where
  "private_is_json req =
     (if is_json req then True
      else (let best = best_match (accept_mimetypes req) MIMETYPES
            in best = Some ''application/json''))"

section \<open>Responses\<close>

text \<open>
  Modelled from the spec: the host's \<^verbatim>\<open>jsonify\<close>, \<^verbatim>\<open>redirect\<close>,
  \<^verbatim>\<open>url_for\<close> and \<^verbatim>\<open>render_template\<close> are not part of the repository
  (section 6 lists them as collaborators). A response records which of them made it
  and from which arguments: \<open>Jsonify body status\<close> is the pair
  \<^verbatim>\<open>(jsonify(body), status)\<close>, \<open>Redirect (Url_for name args)\<close> is
  \<^verbatim>\<open>redirect(url_for(name, **args))\<close>, and \<open>Render_template name context\<close> is
  \<^verbatim>\<open>render_template(name, **context)\<close>.
\<close>

datatype url = Url_for string dict

datatype http_response =
    Jsonify pyval pyval
  | Redirect url
  | Render_template "string option" dict

section \<open>Notifications\<close>

text \<open>
  \<^verbatim>\<open>category_response\<close>, with the request and the session as parameters; it
  returns the envelope and the session. The optional arguments are explicit:
  \<^verbatim>\<open>category=None\<close> is \<open>None\<close>, \<^verbatim>\<open>payload=None\<close> is \<open>PNone\<close>. The
  formatting \<^verbatim>\<open>"%s|%s" % (message, category)\<close> of two strings is their
  concatenation around the bar.
\<close>

definition category_response ::
  "request \<Rightarrow> session \<Rightarrow> string \<Rightarrow> int \<Rightarrow> string option \<Rightarrow> pyval \<Rightarrow> string
   \<Rightarrow> dict \<times> session" where
  "category_response req st message status_code category payload flash_category =
     (if private_is_json req
      then (if payload \<noteq> PNone
            then ([(''payload'', payload), (''status_code'', PInt status_code)], st)
            else ([(''message'', PStr message), (''status_code'', PInt status_code)], st))
      else (let category' =
                  (case category of
                     None \<Rightarrow>
                       (if status_code \<ge> 500 then ''danger''
                        else if status_code \<ge> 400 then ''warning''
                        else ''success'')
                   | Some c \<Rightarrow> c)
            in ([], flash (message @ ''|'' @ category') flash_category st)))"

definition response_manager ::
  "string \<Rightarrow> request \<Rightarrow> session \<Rightarrow> string \<Rightarrow> int \<Rightarrow> string option \<Rightarrow> pyval
   \<Rightarrow> dict \<times> session" where
  "response_manager category =
     (\<lambda>req st message status_code cat payload.
        category_response req st message status_code cat payload category)"

definition response ::
  "request \<Rightarrow> session \<Rightarrow> string \<Rightarrow> int \<Rightarrow> string option \<Rightarrow> pyval \<Rightarrow> dict \<times> session" where
  "response = response_manager ''notification''"

text \<open>
  The docstring of \<^verbatim>\<open>category_response\<close> tells templates to recover the two parts
  with \<^verbatim>\<open>flashed_message.split("|")\<close>. \<open>split_on\<close> is Python's
  \<^verbatim>\<open>str.split(sep)\<close> for a separator of one character: the pieces between the
  separators, empty pieces included.
\<close>

fun split_on :: "char \<Rightarrow> string \<Rightarrow> string list" where
  "split_on sep [] = [[]]"
| "split_on sep (c # cs) =
     (if c = sep then [] # split_on sep cs
      else (case split_on sep cs of
              [] \<Rightarrow> [[c]]
            | w # ws \<Rightarrow> (c # w) # ws))"

section \<open>The view class\<close>

text \<open>
  An instance of \<^verbatim>\<open>AppRouteView\<close> or of a subclass: its class attributes and its
  two overridable methods. The methods get the route arguments (\<^verbatim>\<open>**kwargs\<close>),
  the ambient request and the session, and either raise or return a dictionary and the
  session. \<open>route\<close> is \<open>None\<close> when no class of the instance defines an attribute
  of that name: neither \<^verbatim>\<open>AppRouteView\<close> nor the host's \<^verbatim>\<open>MethodView\<close> does.
\<close>

record view =
  template_name :: "string option"
  redirect_to :: "string option"
  redirect_args :: dict
  route :: "string option"
  handle_post :: "pyval \<Rightarrow> dict \<Rightarrow> request \<Rightarrow> session \<Rightarrow> error + (dict \<times> session)"
  populate :: "dict \<Rightarrow> request \<Rightarrow> session \<Rightarrow> error + (dict \<times> session)"

text \<open>The base class: the defaults of every attribute and method.\<close>

definition AppRouteView :: view where
  "AppRouteView =
     \<lparr> template_name = None,
       redirect_to = None,
       redirect_args = [],
       route = None,
       handle_post = (\<lambda>values kwargs req st. Inl NotImplementedError),
       populate = (\<lambda>kwargs req st. Inr ([], st)) \<rparr>"

definition get_template_name :: "view \<Rightarrow> string option" where
  "get_template_name self = template_name self"

definition private_render_template :: "view \<Rightarrow> dict \<Rightarrow> http_response" where
  "private_render_template self context = Render_template (get_template_name self) context"

subsection \<open>POST requests\<close>

definition post_json ::
  "view \<Rightarrow> dict \<Rightarrow> request \<Rightarrow> session \<Rightarrow> error + (http_response \<times> session)" where
  "post_json self kwargs req st =
     (case json req of
        Inl e \<Rightarrow> Inl e
      | Inr values \<Rightarrow>
          (case handle_post self values kwargs req st of
             Inl e \<Rightarrow> Inl e
           | Inr (result, st') \<Rightarrow>
               (case map_of result ''payload'' of
                  Some p \<Rightarrow> Inr (Jsonify p (dict_get result ''status_code'' (PInt 200)), st')
                | None \<Rightarrow>
                    Inr (Jsonify
                           (PDict [(''message'',
                                    dict_get result ''message'' (PStr ''no output''))])
                           (dict_get result ''status_code'' (PInt 200)), st'))))"

definition post_html ::
  "view \<Rightarrow> dict \<Rightarrow> request \<Rightarrow> session \<Rightarrow> error + (http_response \<times> session)" where
  "post_html self kwargs req st =
     (let values = PDict (form req)
      in case handle_post self values kwargs req st of
           Inl e \<Rightarrow> Inl e
         | Inr (result, st') \<Rightarrow>
             (case redirect_to self of
                Some target \<Rightarrow> Inr (Redirect (Url_for target (redirect_args self)), st')
              | None \<Rightarrow>
                  (case route self of
                     None \<Rightarrow> Inl (AttributeError ''route'')
                   | Some r \<Rightarrow> Inr (Redirect (Url_for r (redirect_args self)), st'))))"

subsection \<open>GET requests\<close>

definition get_json ::
  "view \<Rightarrow> dict \<Rightarrow> request \<Rightarrow> session \<Rightarrow> error + (http_response \<times> session)" where
  "get_json self kwargs req st =
     (case populate self kwargs req st of
        Inl e \<Rightarrow> Inl e
      | Inr (values, st') \<Rightarrow>
          Inr (Jsonify (PDict values) (dict_get values ''status_code'' (PInt 200)), st'))"

definition get_html ::
  "view \<Rightarrow> dict \<Rightarrow> request \<Rightarrow> session \<Rightarrow> error + (http_response \<times> session)" where
  "get_html self kwargs req st =
     (case populate self kwargs req st of
        Inl e \<Rightarrow> Inl e
      | Inr (values, st') \<Rightarrow> Inr (private_render_template self values, st'))"

subsection \<open>MethodView overrides\<close>

definition get ::
  "view \<Rightarrow> dict \<Rightarrow> request \<Rightarrow> session \<Rightarrow> error + (http_response \<times> session)" where
  "get self kwargs req st =
     (if private_is_json req then get_json self kwargs req st
      else get_html self kwargs req st)"

definition post ::
  "view \<Rightarrow> dict \<Rightarrow> request \<Rightarrow> session \<Rightarrow> error + (http_response \<times> session)" where
  "post self kwargs req st =
     (if private_is_json req then post_json self kwargs req st
      else post_html self kwargs req st)"

section \<open>Example routes and requests\<close>

text \<open>
  \<^verbatim>\<open>Index\<close> is the route of \<^verbatim>\<open>docs/examples/start.py\<close>. The other three
  accept writes the way the class docstring shows and set no \<^verbatim>\<open>redirect_to\<close>:
  \<open>Saved\<close> answers with \<^verbatim>\<open>response("Saved", payload={"id": 7})\<close>, \<open>Failed\<close>
  with \<^verbatim>\<open>response("Failed", 500)\<close>, and \<open>Silent\<close> returns \<^verbatim>\<open>{}\<close>.
\<close>

definition Index :: view where
  "Index =
     AppRouteView
       \<lparr> template_name := Some ''start.html'',
         populate := (\<lambda>kwargs req st.
           Inr ([(''message'', PStr ''Hello World!''),
                 (''list'', PList [PStr ''eggs'', PStr ''milk'', PStr ''bread''])], st)) \<rparr>"

definition Saved :: view where
  "Saved =
     AppRouteView
       \<lparr> handle_post := (\<lambda>values kwargs req st.
           Inr (response req st ''Saved'' 200 None (PDict [(''id'', PInt 7)]))) \<rparr>"

definition Failed :: view where
  "Failed =
     AppRouteView
       \<lparr> handle_post := (\<lambda>values kwargs req st.
           Inr (response req st ''Failed'' 500 None PNone)) \<rparr>"

definition Silent :: view where
  "Silent = AppRouteView \<lparr> handle_post := (\<lambda>values kwargs req st. Inr ([], st)) \<rparr>"

text \<open>
  A browser's form submission, a client that sends and accepts JSON, and a request
  without Content-Type and Accept headers.
\<close>

definition form_request :: request where
  "form_request =
     \<lparr> is_json = False,
       accept_mimetypes = [(''text/html'', 1000)],
       json = Inr PNone,
       form = [(''device_name'', PStr ''lamp'')] \<rparr>"

definition json_request :: request where
  "json_request =
     \<lparr> is_json = True,
       accept_mimetypes = [(''application/json'', 1000)],
       json = Inr (PDict [(''device_name'', PStr ''lamp'')]),
       form = [] \<rparr>"

definition bare_request :: request where
  "bare_request = \<lparr> is_json = False, accept_mimetypes = [], json = Inr PNone, form = [] \<rparr>"

text \<open>A JSON request whose body the host cannot parse.\<close>

definition malformed_request :: request where
  "malformed_request = json_request \<lparr> json := Inl BadRequest \<rparr>"

definition no_flashes :: session where
  "no_flashes = \<lparr> flashes = [] \<rparr>"

text \<open>
  Whether a serialized body has a given top-level key, and whether it has exactly one of
  the keys \<^verbatim>\<open>payload\<close> and \<^verbatim>\<open>message\<close>.
\<close>

definition body_carries :: "string \<Rightarrow> pyval \<Rightarrow> bool" where
  "body_carries k body = (case body of PDict d \<Rightarrow> dict_contains k d | _ \<Rightarrow> False)"

definition carries_exactly_one :: "pyval \<Rightarrow> bool" where
  "carries_exactly_one body = (body_carries ''payload'' body \<noteq> body_carries ''message'' body)"

section \<open>Dictionary and negotiation facts\<close>

lemma dict_get_absent: "map_of d k = None \<Longrightarrow> dict_get d k dflt = dflt"
  by (simp add: dict_get_def)

lemma dict_get_present: "map_of d k = Some v \<Longrightarrow> dict_get d k dflt = v"
  by (simp add: dict_get_def)

lemma dict_contains_iff: "dict_contains k d = (k \<in> fst ` set d)"
proof (cases "map_of d k")
  case None
  then have "k \<notin> fst ` set d" by (simp add: map_of_eq_None_iff)
  with None show ?thesis by (simp add: dict_contains_def)
next
  case (Some v)
  then have "map_of d k \<noteq> None" by simp
  then have "k \<in> fst ` set d" by (simp add: map_of_eq_None_iff)
  with Some show ?thesis by (simp add: dict_contains_def)
qed

lemma split_on_without_sep: "sep \<notin> set w \<Longrightarrow> split_on sep w = [w]"
  by (induction w) auto

lemma split_on_joined:
  "sep \<notin> set m \<Longrightarrow> sep \<notin> set c \<Longrightarrow> split_on sep (m @ sep # c) = [m, c]"
  by (induction m) (auto simp: split_on_without_sep)

lemma post_html_redirect_to:
  "handle_post self (PDict (form req)) kwargs req st = Inr (result, st')
   \<Longrightarrow> redirect_to self = Some target
   \<Longrightarrow> post_html self kwargs req st = Inr (Redirect (Url_for target (redirect_args self)), st')"
  by (simp add: post_html_def)

lemma post_html_route:
  "handle_post self (PDict (form req)) kwargs req st = Inr (result, st')
   \<Longrightarrow> redirect_to self = None
   \<Longrightarrow> route self = Some r
   \<Longrightarrow> post_html self kwargs req st = Inr (Redirect (Url_for r (redirect_args self)), st')"
  by (simp add: post_html_def)

lemma post_html_no_route:
  "handle_post self (PDict (form req)) kwargs req st = Inr (result, st')
   \<Longrightarrow> redirect_to self = None
   \<Longrightarrow> route self = None
   \<Longrightarrow> post_html self kwargs req st = Inl (AttributeError ''route'')"
  by (simp add: post_html_def)

lemma post_html_never_renders:
  "post_html self kwargs req st \<noteq> Inr (Render_template name context, st')"
  by (simp add: post_html_def Let_def split: sum.split prod.split option.split)

lemma accept_sorted_single: "accept_sorted [x] = [x]"
  by (simp add: accept_sorted_def)

lemma json_covers_json: "value_matches ''application/json'' ''application/json''"
  by code_simp

lemma html_covers_html: "value_matches ''text/html'' ''text/html''"
  by code_simp

lemma json_not_covers_html: "\<not> value_matches ''text/html'' ''application/json''"
  by code_simp

lemma html_not_covers_json: "\<not> value_matches ''application/json'' ''text/html''"
  by code_simp

lemma best_match_only_json:
  "0 < q \<Longrightarrow> best_match [(''application/json'', q)] MIMETYPES = Some ''application/json''"
  by (simp add: best_match_def MIMETYPES_def accept_sorted_single json_covers_json
        json_not_covers_html)

lemma best_match_only_html:
  "best_match [(''text/html'', q)] MIMETYPES \<noteq> Some ''application/json''"
  by (simp add: best_match_def MIMETYPES_def accept_sorted_single html_covers_html
        html_not_covers_json)

lemma best_match_no_header: "best_match [] MIMETYPES = None"
  by (simp add: best_match_def MIMETYPES_def accept_sorted_def)

lemma best_match_two_candidates:
  "(best_match accept MIMETYPES = Some ''application/json'') =
   (case best_single_match ''application/json'' (accept_sorted accept) of
      None \<Rightarrow> False
    | Some (json_item, json_quality) \<Rightarrow>
        0 < json_quality \<and>
        (case best_single_match ''text/html'' (accept_sorted accept) of
           None \<Rightarrow> True
         | Some (html_item, html_quality) \<Rightarrow>
             html_quality < json_quality
             \<or> (html_quality = json_quality
                 \<and> \<not> tuple_less (specificity json_item) (specificity html_item))))"
  by (auto simp: best_match_def MIMETYPES_def split: option.splits)

text \<open>
  The negotiation on headers beyond the three of the claim: a range of quality 0 is a
  refusal, letter case does not matter, a specific range wins over a wildcard of the
  same quality, a lone wildcard gives the first candidate, and a browser's usual header
  gives HTML.
\<close>

lemma best_match_refused_json: "best_match [(''application/json'', 0)] MIMETYPES = None"
  by code_simp

lemma best_match_refused_json_other:
  "best_match [(''text/plain'', 1000), (''application/json'', 0)] MIMETYPES = None"
  by code_simp

lemma best_match_ignores_case:
  "best_match [(''Application/JSON'', 1000)] MIMETYPES = Some ''application/json''"
  by code_simp

lemma best_match_specific_over_wildcard:
  "best_match [(''text/html'', 1000), (''*/*'', 1000)] MIMETYPES = Some ''text/html''"
  by code_simp

lemma best_match_wildcard_only:
  "best_match [(''*/*'', 1000)] MIMETYPES = Some ''application/json''"
  by code_simp

lemma best_match_browser:
  "best_match [(''text/html'', 1000), (''application/xhtml+xml'', 1000),
               (''application/xml'', 900), (''*/*'', 800)] MIMETYPES = Some ''text/html''"
  by code_simp

lemma form_request_is_html: "\<not> private_is_json form_request"
  by (simp add: private_is_json_def form_request_def best_match_only_html)

lemma json_request_is_json: "private_is_json json_request"
  by (simp add: private_is_json_def json_request_def)

lemma bare_request_is_html: "\<not> private_is_json bare_request"
  by (simp add: private_is_json_def bare_request_def best_match_no_header)

lemma malformed_request_is_json: "private_is_json malformed_request"
  by (simp add: private_is_json_def malformed_request_def json_request_def)

section \<open>Negotiation\<close>

text \<open>
  C1. A request whose Content-Type declares JSON is classified as JSON whatever its
  Accept header says. Any other request is classified as JSON exactly when the best
  match of its Accept header over the candidates application/json, text/html (in this
  order) is application/json; that is, exactly when the header's range for
  application/json has a positive quality and its range for text/html, if there is
  one, has a lower quality, or the same quality and no greater specificity. So
  Accept: application/json gives JSON, Accept: text/html gives HTML, and a request
  without Accept header gives HTML.
\<close>

theorem is_json_negotiation:
  "MIMETYPES = [''application/json'', ''text/html'']
   \<and> (is_json req \<longrightarrow> private_is_json req)
   \<and> (\<not> is_json req \<longrightarrow>
        private_is_json req
          = (best_match (accept_mimetypes req) MIMETYPES = Some ''application/json''))
   \<and> (\<not> is_json req \<longrightarrow>
        private_is_json req
          = (case best_single_match ''application/json''
                    (accept_sorted (accept_mimetypes req)) of
               None \<Rightarrow> False
             | Some (json_item, json_quality) \<Rightarrow>
                 0 < json_quality \<and>
                 (case best_single_match ''text/html''
                         (accept_sorted (accept_mimetypes req)) of
                    None \<Rightarrow> True
                  | Some (html_item, html_quality) \<Rightarrow>
                      html_quality < json_quality
                      \<or> (html_quality = json_quality
                          \<and> \<not> tuple_less (specificity json_item)
                                 (specificity html_item)))))
   \<and> (\<forall>q. \<not> is_json req \<and> 0 < q \<and> accept_mimetypes req = [(''application/json'', q)]
        \<longrightarrow> private_is_json req)
   \<and> (\<forall>q. \<not> is_json req \<and> accept_mimetypes req = [(''text/html'', q)]
        \<longrightarrow> \<not> private_is_json req)
   \<and> (\<not> is_json req \<and> accept_mimetypes req = [] \<longrightarrow> \<not> private_is_json req)"
proof (intro conjI impI allI)
  show "MIMETYPES = [''application/json'', ''text/html'']"
    by (simp add: MIMETYPES_def)
next
  assume "is_json req"
  then show "private_is_json req"
    by (simp add: private_is_json_def)
next
  assume "\<not> is_json req"
  then show "private_is_json req
      = (best_match (accept_mimetypes req) MIMETYPES = Some ''application/json'')"
    by (simp add: private_is_json_def)
next
  assume "\<not> is_json req"
  then have "private_is_json req
      = (best_match (accept_mimetypes req) MIMETYPES = Some ''application/json'')"
    by (simp add: private_is_json_def)
  then show "private_is_json req
      = (case best_single_match ''application/json''
                (accept_sorted (accept_mimetypes req)) of
           None \<Rightarrow> False
         | Some (json_item, json_quality) \<Rightarrow>
             0 < json_quality \<and>
             (case best_single_match ''text/html''
                     (accept_sorted (accept_mimetypes req)) of
                None \<Rightarrow> True
              | Some (html_item, html_quality) \<Rightarrow>
                  html_quality < json_quality
                  \<or> (html_quality = json_quality
                      \<and> \<not> tuple_less (specificity json_item)
                             (specificity html_item))))"
    by (simp only: best_match_two_candidates)
next
  fix q
  assume "\<not> is_json req \<and> 0 < q \<and> accept_mimetypes req = [(''application/json'', q)]"
  then show "private_is_json req"
    by (simp add: private_is_json_def best_match_only_json)
next
  fix q
  assume "\<not> is_json req \<and> accept_mimetypes req = [(''text/html'', q)]"
  then show "\<not> private_is_json req"
    by (simp add: private_is_json_def best_match_only_html)
next
  assume "\<not> is_json req \<and> accept_mimetypes req = []"
  then show "\<not> private_is_json req"
    by (simp add: private_is_json_def best_match_no_header)
qed

theorem is_json_negotiation_witness:
  "private_is_json json_request
   \<and> private_is_json (bare_request\<lparr>accept_mimetypes := [(''application/json'', 1000)]\<rparr>)
   \<and> \<not> private_is_json form_request
   \<and> \<not> private_is_json bare_request"
proof -
  let ?api = "bare_request\<lparr>accept_mimetypes := [(''application/json'', 1000)]\<rparr>"
  have h1: "is_json json_request"
    by (simp add: json_request_def)
  have h2: "\<not> is_json ?api \<and> (0::int) < 1000
      \<and> accept_mimetypes ?api = [(''application/json'', 1000)]"
    by (simp add: bare_request_def)
  have h3: "\<not> is_json form_request \<and> accept_mimetypes form_request = [(''text/html'', 1000)]"
    by (simp add: form_request_def)
  have h4: "\<not> is_json bare_request \<and> accept_mimetypes bare_request = []"
    by (simp add: bare_request_def)
  from h1 is_json_negotiation [of json_request] have "private_is_json json_request"
    by blast
  moreover from h2 is_json_negotiation [of ?api] have "private_is_json ?api"
    by blast
  moreover from h3 is_json_negotiation [of form_request] have "\<not> private_is_json form_request"
    by blast
  moreover from h4 is_json_negotiation [of bare_request] have "\<not> private_is_json bare_request"
    by blast
  ultimately show ?thesis by blast
qed

section \<open>Notifications in JSON mode and in HTML mode\<close>

text \<open>
  C3. When the current dispatch is classified as JSON, \<^verbatim>\<open>category_response\<close>
  returns exactly the payload and the status code if a payload was given, exactly the
  message and the status code otherwise, and leaves the flash queue as it was. In
  particular \<^verbatim>\<open>category_response("Saved", 200, payload={"id": 7})\<close> returns
  exactly \<^verbatim>\<open>{payload: {id: 7}, status_code: 200}\<close>.
\<close>

theorem category_response_json_mode:
  assumes "private_is_json req"
  shows "(payload \<noteq> PNone \<longrightarrow>
            category_response req st message status_code category payload flash_category
              = ([(''payload'', payload), (''status_code'', PInt status_code)], st))
       \<and> category_response req st message status_code category PNone flash_category
              = ([(''message'', PStr message), (''status_code'', PInt status_code)], st)
       \<and> category_response req st ''Saved'' 200 None (PDict [(''id'', PInt 7)]) ''notification''
              = ([(''payload'', PDict [(''id'', PInt 7)]), (''status_code'', PInt 200)], st)"
  using assms by (simp add: category_response_def)

theorem category_response_json_mode_witness:
  "category_response json_request no_flashes ''Saved'' 200 None (PDict [(''id'', PInt 7)])
       ''notification''
     = ([(''payload'', PDict [(''id'', PInt 7)]), (''status_code'', PInt 200)], no_flashes)
   \<and> category_response json_request no_flashes ''Saved'' 200 None PNone ''notification''
     = ([(''message'', PStr ''Saved''), (''status_code'', PInt 200)], no_flashes)"
  using category_response_json_mode [OF json_request_is_json, of "PDict [(''id'', PInt 7)]"
      no_flashes "''Saved''" 200 None "''notification''"]
  by simp

text \<open>
  C4. When the current dispatch is classified as HTML and no category is given,
  \<^verbatim>\<open>category_response\<close> takes the category "danger" for a status code of 500 or
  more, "warning" for one of 400 or more, "success" otherwise; with or without an
  explicit category it queues the message joined to the category on the given channel
  and returns the empty envelope. In particular \<^verbatim>\<open>category_response("Failed", 500)\<close>
  queues a notification of category "danger" and returns the empty envelope.
\<close>

theorem category_response_html_mode:
  assumes "\<not> private_is_json req"
  shows "category_response req st message status_code None payload flash_category
           = ([], st\<lparr>flashes := flashes st @
                 [(flash_category,
                   message @ ''|'' @
                     (if 500 \<le> status_code then ''danger''
                      else if 400 \<le> status_code then ''warning''
                      else ''success''))]\<rparr>)
       \<and> category_response req st message status_code (Some c) payload flash_category
           = ([], st\<lparr>flashes := flashes st @ [(flash_category, message @ ''|'' @ c)]\<rparr>)
       \<and> category_response req st ''Failed'' 500 None PNone ''notification''
           = ([], st\<lparr>flashes := flashes st @ [(''notification'', ''Failed|danger'')]\<rparr>)"
  using assms by (simp add: category_response_def flash_def)

theorem category_response_html_mode_witness:
  "category_response form_request no_flashes ''Failed'' 500 None PNone ''notification''
     = ([], \<lparr>flashes = [(''notification'', ''Failed|danger'')]\<rparr>)
   \<and> category_response form_request no_flashes ''Slow down'' 429 None PNone ''notification''
     = ([], \<lparr>flashes = [(''notification'', ''Slow down|warning'')]\<rparr>)
   \<and> category_response form_request no_flashes ''Saved'' 200 None PNone ''notification''
     = ([], \<lparr>flashes = [(''notification'', ''Saved|success'')]\<rparr>)"
  using category_response_html_mode [OF form_request_is_html, of no_flashes "''Failed'' " 500
      PNone "''notification''"]
    category_response_html_mode [OF form_request_is_html, of no_flashes "''Slow down''" 429
      PNone "''notification''"]
    category_response_html_mode [OF form_request_is_html, of no_flashes "''Saved''" 200
      PNone "''notification''"]
  by (simp add: no_flashes_def)

text \<open>
  C9. The notification that \<^verbatim>\<open>category_response("Saved")\<close> queues in HTML mode is
  the single string "Saved|success", and splitting that string on the bar gives back
  the message "Saved" and the category "success".
\<close>

theorem notification_round_trip:
  "flashes (snd (category_response form_request no_flashes ''Saved'' 200 None PNone
       ''notification''))
     = [(''notification'', ''Saved|success'')]
   \<and> split_on CHR ''|'' ''Saved|success'' = [''Saved'', ''success'']"
  using form_request_is_html by (simp add: category_response_def flash_def no_flashes_def)

section \<open>Dispatch in JSON mode\<close>

text \<open>
  C5. A POST request dispatched in JSON mode passes the parsed body to
  \<^verbatim>\<open>handle_post\<close>. When the returned envelope has a payload key, that payload is
  the JSON body; otherwise the body is an object with the single key message. The
  status code is the envelope's status_code, and 200 when the envelope has none.
\<close>

theorem post_json_mode:
  assumes "private_is_json req"
    and "json req = Inr values"
    and "handle_post self values kwargs req st = Inr (result, st')"
  shows "(\<forall>p. map_of result ''payload'' = Some p \<longrightarrow>
            post self kwargs req st
              = Inr (Jsonify p (dict_get result ''status_code'' (PInt 200)), st'))
       \<and> (map_of result ''payload'' = None \<longrightarrow>
            post self kwargs req st
              = Inr (Jsonify (PDict [(''message'',
                                      dict_get result ''message'' (PStr ''no output''))])
                       (dict_get result ''status_code'' (PInt 200)), st'))
       \<and> (\<forall>s. map_of result ''status_code'' = Some s \<longrightarrow>
            dict_get result ''status_code'' (PInt 200) = s)
       \<and> (map_of result ''status_code'' = None \<longrightarrow>
            dict_get result ''status_code'' (PInt 200) = PInt 200)"
  using assms by (simp add: post_def post_json_def dict_get_def)

theorem post_json_mode_witness:
  "post Saved [] json_request no_flashes
     = Inr (Jsonify (PDict [(''id'', PInt 7)]) (PInt 200), no_flashes)
   \<and> post Failed [] json_request no_flashes
     = Inr (Jsonify (PDict [(''message'', PStr ''Failed'')]) (PInt 500), no_flashes)"
proof -
  have body: "json json_request = Inr (PDict [(''device_name'', PStr ''lamp'')])"
    by (simp add: json_request_def)
  have saved: "handle_post Saved (PDict [(''device_name'', PStr ''lamp'')]) [] json_request
      no_flashes
    = Inr ([(''payload'', PDict [(''id'', PInt 7)]), (''status_code'', PInt 200)], no_flashes)"
    using json_request_is_json
    by (simp add: Saved_def response_def response_manager_def category_response_def)
  have failed: "handle_post Failed (PDict [(''device_name'', PStr ''lamp'')]) [] json_request
      no_flashes
    = Inr ([(''message'', PStr ''Failed''), (''status_code'', PInt 500)], no_flashes)"
    using json_request_is_json
    by (simp add: Failed_def response_def response_manager_def category_response_def)
  from post_json_mode [OF json_request_is_json body saved]
  have "post Saved [] json_request no_flashes
     = Inr (Jsonify (PDict [(''id'', PInt 7)]) (PInt 200), no_flashes)"
    by (simp add: dict_get_def)
  moreover from post_json_mode [OF json_request_is_json body failed]
  have "post Failed [] json_request no_flashes
     = Inr (Jsonify (PDict [(''message'', PStr ''Failed'')]) (PInt 500), no_flashes)"
    by (simp add: dict_get_def)
  ultimately show ?thesis by simp
qed

text \<open>
  C10. A POST request dispatched in JSON mode whose envelope has neither a payload key
  nor a message key (the empty envelope, for example) is answered with the body
  \<^verbatim>\<open>{"message": "no output"}\<close>, with status code 200 unless the envelope has a
  status_code.
\<close>

theorem post_json_no_output:
  assumes "private_is_json req"
    and "json req = Inr values"
    and "handle_post self values kwargs req st = Inr (result, st')"
    and "\<not> dict_contains ''payload'' result"
    and "\<not> dict_contains ''message'' result"
  shows "post self kwargs req st
           = Inr (Jsonify (PDict [(''message'', PStr ''no output'')])
                    (dict_get result ''status_code'' (PInt 200)), st')
       \<and> (\<not> dict_contains ''status_code'' result \<longrightarrow>
            post self kwargs req st
              = Inr (Jsonify (PDict [(''message'', PStr ''no output'')]) (PInt 200), st'))
       \<and> (result = [] \<longrightarrow>
            post self kwargs req st
              = Inr (Jsonify (PDict [(''message'', PStr ''no output'')]) (PInt 200), st'))"
  using assms
  by (auto simp: post_def post_json_def dict_get_def dict_contains_def split: option.splits)

theorem post_json_no_output_witness:
  "post Silent [] json_request no_flashes
     = Inr (Jsonify (PDict [(''message'', PStr ''no output'')]) (PInt 200), no_flashes)"
proof -
  have body: "json json_request = Inr (PDict [(''device_name'', PStr ''lamp'')])"
    by (simp add: json_request_def)
  have silent: "handle_post Silent (PDict [(''device_name'', PStr ''lamp'')]) [] json_request
      no_flashes = Inr ([], no_flashes)"
    by (simp add: Silent_def)
  have no_payload: "\<not> dict_contains ''payload'' []"
    by (simp add: dict_contains_def)
  have no_message: "\<not> dict_contains ''message'' []"
    by (simp add: dict_contains_def)
  from post_json_no_output [OF json_request_is_json body silent no_payload no_message]
  show ?thesis by blast
qed

text \<open>
  C6. A GET request dispatched in JSON mode is answered with the mapping that
  \<^verbatim>\<open>populate\<close> returned as the JSON body; the status code is the value of the
  status_code key of that mapping, and 200 when the mapping has no such key.
\<close>

theorem get_json_mode:
  assumes "private_is_json req"
    and "populate self kwargs req st = Inr (values, st')"
  shows "get self kwargs req st
           = Inr (Jsonify (PDict values) (dict_get values ''status_code'' (PInt 200)), st')
       \<and> (\<forall>s. map_of values ''status_code'' = Some s \<longrightarrow>
            dict_get values ''status_code'' (PInt 200) = s)
       \<and> (map_of values ''status_code'' = None \<longrightarrow>
            dict_get values ''status_code'' (PInt 200) = PInt 200)"
  using assms by (simp add: get_def get_json_def dict_get_def)

theorem get_json_mode_witness:
  "get Index [] json_request no_flashes
     = Inr (Jsonify
              (PDict [(''message'', PStr ''Hello World!''),
                      (''list'', PList [PStr ''eggs'', PStr ''milk'', PStr ''bread''])])
              (PInt 200), no_flashes)"
proof -
  have data: "populate Index [] json_request no_flashes
    = Inr ([(''message'', PStr ''Hello World!''),
            (''list'', PList [PStr ''eggs'', PStr ''milk'', PStr ''bread''])], no_flashes)"
    by (simp add: Index_def)
  from get_json_mode [OF json_request_is_json data]
  show ?thesis by (simp add: dict_get_def)
qed

text \<open>
  C7, as the code has it. The envelope that \<^verbatim>\<open>category_response\<close> builds in JSON
  mode has exactly one of the keys payload and message. On the write path the JSON body
  is one of two things: the value of the envelope's payload key when the envelope has
  one, and otherwise an object whose only key is message. On the read path the body is
  the mapping that \<^verbatim>\<open>populate\<close> returned, with whatever keys it has.
\<close>

theorem json_body_shape:
  "(private_is_json req \<longrightarrow>
      carries_exactly_one
        (PDict (fst (category_response req st message status_code category payload
                       flash_category))))
   \<and> (private_is_json req \<and> json req = Inr values
        \<and> handle_post self values kwargs req st = Inr (result, st') \<longrightarrow>
        (\<exists>body status.
           post self kwargs req st = Inr (Jsonify body status, st')
           \<and> (case map_of result ''payload'' of
                Some p \<Rightarrow> body = p
              | None \<Rightarrow> (\<exists>m. body = PDict [(''message'', m)]) \<and> carries_exactly_one body)))
   \<and> (private_is_json req \<and> populate self kwargs req st = Inr (data, st'') \<longrightarrow>
        (\<exists>status. get self kwargs req st = Inr (Jsonify (PDict data) status, st'')))"
proof (intro conjI impI)
  assume "private_is_json req"
  then show "carries_exactly_one
      (PDict (fst (category_response req st message status_code category payload
                     flash_category)))"
    by (simp add: category_response_def carries_exactly_one_def body_carries_def
          dict_contains_def)
next
  assume "private_is_json req \<and> json req = Inr values
    \<and> handle_post self values kwargs req st = Inr (result, st')"
  then show "\<exists>body status.
      post self kwargs req st = Inr (Jsonify body status, st')
      \<and> (case map_of result ''payload'' of
           Some p \<Rightarrow> body = p
         | None \<Rightarrow> (\<exists>m. body = PDict [(''message'', m)]) \<and> carries_exactly_one body)"
    by (cases "map_of result ''payload''")
      (simp_all add: post_def post_json_def carries_exactly_one_def body_carries_def
         dict_contains_def)
next
  assume "private_is_json req \<and> populate self kwargs req st = Inr (data, st'')"
  then show "\<exists>status. get self kwargs req st = Inr (Jsonify (PDict data) status, st'')"
    by (simp add: get_def get_json_def)
qed

theorem json_body_shape_witness:
  "carries_exactly_one
     (PDict (fst (category_response json_request no_flashes ''Saved'' 200 None
                    (PDict [(''id'', PInt 7)]) ''notification'')))
   \<and> (\<exists>status. post Saved [] json_request no_flashes
         = Inr (Jsonify (PDict [(''id'', PInt 7)]) status, no_flashes))
   \<and> (\<exists>status. get Index [] json_request no_flashes
         = Inr (Jsonify
                  (PDict [(''message'', PStr ''Hello World!''),
                          (''list'', PList [PStr ''eggs'', PStr ''milk'', PStr ''bread''])])
                  status, no_flashes))"
proof -
  have body: "json json_request = Inr (PDict [(''device_name'', PStr ''lamp'')])"
    by (simp add: json_request_def)
  have saved: "handle_post Saved (PDict [(''device_name'', PStr ''lamp'')]) [] json_request
      no_flashes
    = Inr ([(''payload'', PDict [(''id'', PInt 7)]), (''status_code'', PInt 200)], no_flashes)"
    using json_request_is_json
    by (simp add: Saved_def response_def response_manager_def category_response_def)
  have data: "populate Index [] json_request no_flashes
    = Inr ([(''message'', PStr ''Hello World!''),
            (''list'', PList [PStr ''eggs'', PStr ''milk'', PStr ''bread''])], no_flashes)"
    by (simp add: Index_def)
  note on_write = json_body_shape [of json_request no_flashes "''Saved''" 200 None
      "PDict [(''id'', PInt 7)]" "''notification''" "PDict [(''device_name'', PStr ''lamp'')]"
      Saved "[]"
      "[(''payload'', PDict [(''id'', PInt 7)]), (''status_code'', PInt 200)]" no_flashes]
  note on_read = json_body_shape [of json_request no_flashes _ _ _ _ _ _ Index "[]" _ _
      "[(''message'', PStr ''Hello World!''),
        (''list'', PList [PStr ''eggs'', PStr ''milk'', PStr ''bread''])]" no_flashes]
  from on_write json_request_is_json
  have "carries_exactly_one
     (PDict (fst (category_response json_request no_flashes ''Saved'' 200 None
                    (PDict [(''id'', PInt 7)]) ''notification'')))"
    by blast
  moreover from on_write json_request_is_json body saved
  have "\<exists>status. post Saved [] json_request no_flashes
         = Inr (Jsonify (PDict [(''id'', PInt 7)]) status, no_flashes)"
    by auto
  moreover from on_read json_request_is_json data
  have "\<exists>status. get Index [] json_request no_flashes
         = Inr (Jsonify
                  (PDict [(''message'', PStr ''Hello World!''),
                          (''list'', PList [PStr ''eggs'', PStr ''milk'', PStr ''bread''])])
                  status, no_flashes)"
    by blast
  ultimately show ?thesis by blast
qed

text \<open>
  The claim C7 as a statement about every JSON body fails on the read path: a route
  that keeps the default \<^verbatim>\<open>populate\<close> answers a GET request in JSON mode with the
  empty object, which has neither key.
\<close>

theorem json_body_exactly_one_counterexample:
  "get AppRouteView [] json_request no_flashes
     = Inr (Jsonify (PDict []) (PInt 200), no_flashes)
   \<and> \<not> carries_exactly_one (PDict [])"
  using json_request_is_json
  by (simp add: get_def get_json_def AppRouteView_def dict_get_def carries_exactly_one_def
        body_carries_def dict_contains_def)

section \<open>Writes\<close>

text \<open>
  C8, as the code has it. When \<^verbatim>\<open>handle_post\<close> is not overridden, a write request
  that reaches it fails with \<^verbatim>\<open>NotImplementedError\<close>, which no dispatch method
  catches: the error is the result of \<^verbatim>\<open>post\<close>. This is every request on the HTML
  path, and on the JSON path every request whose body the host has parsed. On the JSON
  path \<^verbatim>\<open>request.json\<close> is evaluated before \<^verbatim>\<open>handle_post\<close> is called, so a
  request whose body the host cannot parse fails with the host's error instead.
\<close>

theorem handle_post_not_overridden:
  assumes "handle_post self = handle_post AppRouteView"
  shows "post_html self kwargs req st = Inl NotImplementedError
       \<and> (\<forall>values. json req = Inr values \<longrightarrow>
            post_json self kwargs req st = Inl NotImplementedError)
       \<and> (\<not> private_is_json req \<longrightarrow> post self kwargs req st = Inl NotImplementedError)
       \<and> (\<forall>values. private_is_json req \<and> json req = Inr values \<longrightarrow>
            post self kwargs req st = Inl NotImplementedError)
       \<and> (\<forall>e. private_is_json req \<and> json req = Inl e \<longrightarrow>
            post self kwargs req st = Inl e)"
  using assms by (simp add: post_def post_html_def post_json_def AppRouteView_def)

theorem handle_post_not_overridden_witness:
  "post Index [] form_request no_flashes = Inl NotImplementedError
   \<and> post Index [] json_request no_flashes = Inl NotImplementedError
   \<and> post Index [] malformed_request no_flashes = Inl BadRequest"
proof -
  have base: "handle_post Index = handle_post AppRouteView"
    by (simp add: Index_def)
  have body: "json json_request = Inr (PDict [(''device_name'', PStr ''lamp'')])"
    by (simp add: json_request_def)
  have bad: "json malformed_request = Inl BadRequest"
    by (simp add: malformed_request_def)
  from handle_post_not_overridden [OF base, of "[]" form_request no_flashes]
    form_request_is_html
  have "post Index [] form_request no_flashes = Inl NotImplementedError"
    by blast
  moreover from handle_post_not_overridden [OF base, of "[]" json_request no_flashes]
    json_request_is_json body
  have "post Index [] json_request no_flashes = Inl NotImplementedError"
    by blast
  moreover from handle_post_not_overridden [OF base, of "[]" malformed_request no_flashes]
    malformed_request_is_json bad
  have "post Index [] malformed_request no_flashes = Inl BadRequest"
    by blast
  ultimately show ?thesis by simp
qed

text \<open>
  The claim C8 as a statement about every write request fails on the JSON path: a
  request with a JSON Content-Type and a body the host cannot parse, sent to the base
  class, whose \<^verbatim>\<open>handle_post\<close> is the default, ends in the host's client error and
  not in \<^verbatim>\<open>NotImplementedError\<close>.
\<close>

theorem handle_post_malformed_body_counterexample:
  "private_is_json malformed_request
   \<and> post AppRouteView [] malformed_request no_flashes = Inl BadRequest
   \<and> post AppRouteView [] malformed_request no_flashes \<noteq> Inl NotImplementedError"
  by (simp add: post_def post_json_def private_is_json_def malformed_request_def
        json_request_def)

text \<open>
  C2. A POST request in HTML mode to a route that overrides \<^verbatim>\<open>handle_post\<close> and
  sets no \<^verbatim>\<open>redirect_to\<close>: the handler returns, and the dispatch then reads
  \<^verbatim>\<open>self.route\<close>, which no class defines, so it ends in an
  \<^verbatim>\<open>AttributeError\<close> and not in a redirect back to the route.
\<close>

theorem post_html_route_undefined:
  "handle_post Saved (PDict (form form_request)) [] form_request no_flashes
     = Inr ([], \<lparr>flashes = [(''notification'', ''Saved|success'')]\<rparr>)
   \<and> redirect_to Saved = None
   \<and> post Saved [] form_request no_flashes = Inl (AttributeError ''route'')"
  using form_request_is_html
  by (simp add: post_def post_html_def Saved_def AppRouteView_def response_def
        response_manager_def category_response_def flash_def no_flashes_def)

end
